theory Spec2Isabelle
  imports Main
begin

section \<open>The media sharing database: schema, statements and queries\<close>

text \<open>
  The artefact verified here is the schema script \<^verbatim>\<open>media-db.sql\<close> (the tables, their
  declared constraints and the sample rows), the query catalogue of the database lecture
  and the model function \<^verbatim>\<open>addUser\<close> of the validation lecture.

  A table is the list of its rows in insertion order together with its
  \<^verbatim>\<open>AUTO_INCREMENT\<close> counter. A statement either fails with an error and leaves the
  database as it was, or yields the new database. The constraints enforced are the
  declared ones: \<^verbatim>\<open>NOT NULL\<close>, \<^verbatim>\<open>UNIQUE\<close>, \<^verbatim>\<open>PRIMARY KEY\<close>, \<^verbatim>\<open>FOREIGN KEY\<close> (no
  \<^verbatim>\<open>ON DELETE\<close> action is declared anywhere, so the default, restrict, applies) and
  \<^verbatim>\<open>CHECK\<close>.

  Modelling decisions:
  \<^item> \<^verbatim>\<open>INT\<close> values are HOL integers and \<^verbatim>\<open>VARCHAR\<close>/\<^verbatim>\<open>TEXT\<close> values are strings.
    The statements are meant for values in the domain of their column (\<open>INT_range\<close>,
    \<open>VARCHAR n\<close> below): what the engine does with a value outside it (an error, or a
    clipped value) depends on its mode, which the script does not set. A statement
    about an insert being accepted therefore assumes the values to lie in their domains.
  \<^item> A value handed to a statement may be \<^verbatim>\<open>NULL\<close>: it is an \<open>option\<close>.
  \<^item> The script declares no collation, so string comparison (in \<^verbatim>\<open>UNIQUE\<close>, in
    \<^verbatim>\<open>WHERE name = '...'\<close>, in \<^verbatim>\<open>GROUP BY\<close>) is a parameter \<open>coll\<close>.
  \<^item> \<^verbatim>\<open>created_at\<close> defaults to the current time, which is an argument of the insert.
  \<^item> The counter of a table advances on every successful insert.
\<close>

datatype error =
    ConstraintViolation
  | AmbiguousProjection
  | SubqueryCardinality
  | UnknownColumn

type_synonym timestamp = nat

type_synonym collation = "string \<Rightarrow> string \<Rightarrow> bool"

subsection \<open>Rows\<close>

record UserLevels =
  level_id :: int
  level_name :: string

record Users =
  user_id :: int
  username :: string
  password :: string
  email :: string
  user_level_id :: "int option"
  created_at :: timestamp

record MediaItems =
  media_id :: int
  user_id :: int
  filename :: string
  filesize :: int
  media_type :: string
  title :: string
  description :: "string option"
  created_at :: timestamp

record Comments =
  comment_id :: int
  media_id :: int
  user_id :: int
  comment_text :: string
  created_at :: timestamp

record Likes =
  like_id :: int
  media_id :: int
  user_id :: int
  created_at :: timestamp

record Ratings =
  rating_id :: int
  media_id :: int
  user_id :: int
  rating_value :: int
  created_at :: timestamp

record Tags =
  tag_id :: int
  tag_name :: string

record MediaItemTags =
  media_id :: int
  tag_id :: int

subsection \<open>Tables and the database\<close>

record 'r table =
  rows :: "'r list"
  auto_increment :: int

record database =
  user_levels :: "UserLevels table"
  users :: "Users table"
  media_items :: "MediaItems table"
  comments :: "Comments table"
  likes :: "Likes table"
  ratings :: "Ratings table"
  tags :: "Tags table"
  media_item_tags :: "MediaItemTags list"

definition empty_table :: "'r table" where
  "empty_table = \<lparr>rows = [], auto_increment = 1\<rparr>"

definition empty_db :: database where
  "empty_db = \<lparr>user_levels = empty_table, users = empty_table, media_items = empty_table,
     comments = empty_table, likes = empty_table, ratings = empty_table, tags = empty_table,
     media_item_tags = []\<rparr>"

definition append_row :: "'r \<Rightarrow> 'r table \<Rightarrow> 'r table" where
  "append_row r t = t\<lparr>rows := rows t @ [r], auto_increment := auto_increment t + 1\<rparr>"

text \<open>The key columns of the tables, in row order.\<close>

definition level_ids :: "database \<Rightarrow> int list" where
  "level_ids db = map UserLevels.level_id (rows (user_levels db))"

definition user_ids :: "database \<Rightarrow> int list" where
  "user_ids db = map Users.user_id (rows (users db))"

definition media_ids :: "database \<Rightarrow> int list" where
  "media_ids db = map MediaItems.media_id (rows (media_items db))"

definition tag_ids :: "database \<Rightarrow> int list" where
  "tag_ids db = map Tags.tag_id (rows (tags db))"

subsection \<open>Column domains\<close>




subsection \<open>Declared constraints\<close>

text \<open>\<^verbatim>\<open>FOREIGN KEY (c) REFERENCES T(k)\<close>: a \<^verbatim>\<open>NULL\<close> reference is not checked, any other
  value has to be a key of the referenced table.\<close>

fun references :: "int option \<Rightarrow> int list \<Rightarrow> bool" where
  "references None keys = True"
| "references (Some k) keys = (k \<in> set keys)"

text \<open>The values of a nullable column that are not \<^verbatim>\<open>NULL\<close>.\<close>

definition non_null :: "'a option list \<Rightarrow> 'a list" where
  "non_null vs = concat (map (\<lambda>v. case v of None \<Rightarrow> [] | Some x \<Rightarrow> [x]) vs)"

text \<open>Restrict: a parent row cannot go while a child row refers to its key.\<close>

definition referenced :: "int list \<Rightarrow> int list \<Rightarrow> bool" where
  "referenced keys child_refs = (\<exists>k \<in> set keys. k \<in> set child_refs)"

text \<open>A scalar subquery \<^verbatim>\<open>= (SELECT ...)\<close>: no row is \<^verbatim>\<open>NULL\<close>, one row is its value,
  more than one row is an error.\<close>

fun scalar_subquery :: "'a list \<Rightarrow> error + 'a option" where
  "scalar_subquery [] = Inr None"
| "scalar_subquery [x] = Inr (Some x)"
| "scalar_subquery (x # y # zs) = Inl SubqueryCardinality"

subsection \<open>Inserts\<close>

text \<open>Each insert takes the columns that the \<^verbatim>\<open>INSERT\<close> statements of the script and of
  the catalogue name, in their order; the key is generated. The result is the generated
  key (\<^verbatim>\<open>insertId\<close>) and the new database. An insert checks the declared constraints
  and not the column domains: for a value outside \<open>INT_range\<close> or longer than its
  \<^verbatim>\<open>VARCHAR\<close> the outcome is the engine's, and nothing is claimed of it here.\<close>

definition insert_UserLevels :: "database \<Rightarrow> string option \<Rightarrow> error + int \<times> database" where
  "insert_UserLevels db name =
     (case name of
        Some n \<Rightarrow>
          let i = auto_increment (user_levels db) in
          Inr (i, db\<lparr>user_levels :=
                 append_row \<lparr>UserLevels.level_id = i, level_name = n\<rparr> (user_levels db)\<rparr>)
      | None \<Rightarrow> Inl ConstraintViolation)"

definition insert_Users ::
  "collation \<Rightarrow> database \<Rightarrow> timestamp \<Rightarrow> string option \<Rightarrow> string option \<Rightarrow> string option \<Rightarrow>
     int option \<Rightarrow> error + int \<times> database" where
  "insert_Users coll db now uname pw mail lvl =
     (case (uname, pw, mail) of
        (Some u, Some p, Some e) \<Rightarrow>
          if (\<exists>x \<in> set (rows (users db)). coll (Users.username x) u) then Inl ConstraintViolation
          else if (\<exists>x \<in> set (rows (users db)). coll (Users.email x) e) then Inl ConstraintViolation
          else if \<not> references lvl (level_ids db) then Inl ConstraintViolation
          else
            let i = auto_increment (users db) in
            Inr (i, db\<lparr>users :=
                   append_row \<lparr>Users.user_id = i, username = u, password = p, email = e,
                               user_level_id = lvl, created_at = now\<rparr> (users db)\<rparr>)
      | _ \<Rightarrow> Inl ConstraintViolation)"

definition insert_MediaItems ::
  "database \<Rightarrow> timestamp \<Rightarrow> int option \<Rightarrow> string option \<Rightarrow> int option \<Rightarrow> string option \<Rightarrow>
     string option \<Rightarrow> string option \<Rightarrow> error + int \<times> database" where
  "insert_MediaItems db now uid fname fsize mtype ttl descr =
     (case (uid, fname, fsize, mtype, ttl) of
        (Some u, Some f, Some s, Some m, Some t) \<Rightarrow>
          if \<not> references (Some u) (user_ids db) then Inl ConstraintViolation
          else
            let i = auto_increment (media_items db) in
            Inr (i, db\<lparr>media_items :=
                   append_row \<lparr>MediaItems.media_id = i, user_id = u, filename = f, filesize = s,
                               media_type = m, title = t, description = descr,
                               created_at = now\<rparr> (media_items db)\<rparr>)
      | _ \<Rightarrow> Inl ConstraintViolation)"

definition insert_Comments ::
  "database \<Rightarrow> timestamp \<Rightarrow> int option \<Rightarrow> int option \<Rightarrow> string option \<Rightarrow>
     error + int \<times> database" where
  "insert_Comments db now mid uid txt =
     (case (mid, uid, txt) of
        (Some m, Some u, Some c) \<Rightarrow>
          if \<not> references (Some m) (media_ids db) then Inl ConstraintViolation
          else if \<not> references (Some u) (user_ids db) then Inl ConstraintViolation
          else
            let i = auto_increment (comments db) in
            Inr (i, db\<lparr>comments :=
                   append_row \<lparr>Comments.comment_id = i, media_id = m, user_id = u,
                               comment_text = c, created_at = now\<rparr> (comments db)\<rparr>)
      | _ \<Rightarrow> Inl ConstraintViolation)"

definition insert_Likes ::
  "database \<Rightarrow> timestamp \<Rightarrow> int option \<Rightarrow> int option \<Rightarrow> error + int \<times> database" where
  "insert_Likes db now mid uid =
     (case (mid, uid) of
        (Some m, Some u) \<Rightarrow>
          if \<not> references (Some m) (media_ids db) then Inl ConstraintViolation
          else if \<not> references (Some u) (user_ids db) then Inl ConstraintViolation
          else
            let i = auto_increment (likes db) in
            Inr (i, db\<lparr>likes :=
                   append_row \<lparr>Likes.like_id = i, media_id = m, user_id = u,
                               created_at = now\<rparr> (likes db)\<rparr>)
      | _ \<Rightarrow> Inl ConstraintViolation)"

definition insert_Ratings ::
  "database \<Rightarrow> timestamp \<Rightarrow> int option \<Rightarrow> int option \<Rightarrow> int option \<Rightarrow>
     error + int \<times> database" where
  "insert_Ratings db now mid uid val =
     (case (mid, uid, val) of
        (Some m, Some u, Some v) \<Rightarrow>
          if \<not> (1 \<le> v \<and> v \<le> 5) then Inl ConstraintViolation
          else if \<not> references (Some m) (media_ids db) then Inl ConstraintViolation
          else if \<not> references (Some u) (user_ids db) then Inl ConstraintViolation
          else
            let i = auto_increment (ratings db) in
            Inr (i, db\<lparr>ratings :=
                   append_row \<lparr>Ratings.rating_id = i, media_id = m, user_id = u,
                               rating_value = v, created_at = now\<rparr> (ratings db)\<rparr>)
      | _ \<Rightarrow> Inl ConstraintViolation)"

definition insert_Tags :: "database \<Rightarrow> string option \<Rightarrow> error + int \<times> database" where
  "insert_Tags db name =
     (case name of
        Some n \<Rightarrow>
          let i = auto_increment (tags db) in
          Inr (i, db\<lparr>tags := append_row \<lparr>Tags.tag_id = i, tag_name = n\<rparr> (tags db)\<rparr>)
      | None \<Rightarrow> Inl ConstraintViolation)"

text \<open>\<^verbatim>\<open>MediaItemTags\<close> has no generated key; its primary key is the pair of its columns.\<close>

definition insert_MediaItemTags :: "database \<Rightarrow> int option \<Rightarrow> int option \<Rightarrow> error + database" where
  "insert_MediaItemTags db mid tid =
     (case (mid, tid) of
        (Some m, Some t) \<Rightarrow>
          if (\<exists>x \<in> set (media_item_tags db).
                MediaItemTags.media_id x = m \<and> MediaItemTags.tag_id x = t)
          then Inl ConstraintViolation
          else if \<not> references (Some m) (media_ids db) then Inl ConstraintViolation
          else if \<not> references (Some t) (tag_ids db) then Inl ConstraintViolation
          else Inr (db\<lparr>media_item_tags :=
                     media_item_tags db @ [\<lparr>MediaItemTags.media_id = m, tag_id = t\<rparr>]\<rparr>)
      | _ \<Rightarrow> Inl ConstraintViolation)"

subsection \<open>Deletes\<close>

text \<open>\<^verbatim>\<open>DELETE FROM T WHERE w\<close>, the condition \<open>w\<close> being a predicate on the rows. No
  foreign key of the script declares an \<^verbatim>\<open>ON DELETE\<close> action, so the statement fails
  when a row it would delete is still referred to.\<close>

definition delete_rows :: "('r \<Rightarrow> bool) \<Rightarrow> 'r table \<Rightarrow> 'r table" where
  "delete_rows w t = t\<lparr>rows := filter (\<lambda>r. \<not> w r) (rows t)\<rparr>"

definition delete_UserLevels :: "database \<Rightarrow> (UserLevels \<Rightarrow> bool) \<Rightarrow> error + database" where
  "delete_UserLevels db w =
     (let keys = map UserLevels.level_id (filter w (rows (user_levels db))) in
      if referenced keys (non_null (map Users.user_level_id (rows (users db))))
      then Inl ConstraintViolation
      else Inr (db\<lparr>user_levels := delete_rows w (user_levels db)\<rparr>))"

definition delete_Users :: "database \<Rightarrow> (Users \<Rightarrow> bool) \<Rightarrow> error + database" where
  "delete_Users db w =
     (let keys = map Users.user_id (filter w (rows (users db))) in
      if referenced keys (map MediaItems.user_id (rows (media_items db)))
         \<or> referenced keys (map Comments.user_id (rows (comments db)))
         \<or> referenced keys (map Likes.user_id (rows (likes db)))
         \<or> referenced keys (map Ratings.user_id (rows (ratings db)))
      then Inl ConstraintViolation
      else Inr (db\<lparr>users := delete_rows w (users db)\<rparr>))"

definition delete_MediaItems :: "database \<Rightarrow> (MediaItems \<Rightarrow> bool) \<Rightarrow> error + database" where
  "delete_MediaItems db w =
     (let keys = map MediaItems.media_id (filter w (rows (media_items db))) in
      if referenced keys (map Comments.media_id (rows (comments db)))
         \<or> referenced keys (map Likes.media_id (rows (likes db)))
         \<or> referenced keys (map Ratings.media_id (rows (ratings db)))
         \<or> referenced keys (map MediaItemTags.media_id (media_item_tags db))
      then Inl ConstraintViolation
      else Inr (db\<lparr>media_items := delete_rows w (media_items db)\<rparr>))"

definition delete_Tags :: "database \<Rightarrow> (Tags \<Rightarrow> bool) \<Rightarrow> error + database" where
  "delete_Tags db w =
     (let keys = map Tags.tag_id (filter w (rows (tags db))) in
      if referenced keys (map MediaItemTags.tag_id (media_item_tags db))
      then Inl ConstraintViolation
      else Inr (db\<lparr>tags := delete_rows w (tags db)\<rparr>))"

text \<open>No table refers to the four tables below.\<close>

definition delete_Comments :: "database \<Rightarrow> (Comments \<Rightarrow> bool) \<Rightarrow> error + database" where
  "delete_Comments db w = Inr (db\<lparr>comments := delete_rows w (comments db)\<rparr>)"

definition delete_Likes :: "database \<Rightarrow> (Likes \<Rightarrow> bool) \<Rightarrow> error + database" where
  "delete_Likes db w = Inr (db\<lparr>likes := delete_rows w (likes db)\<rparr>)"

definition delete_Ratings :: "database \<Rightarrow> (Ratings \<Rightarrow> bool) \<Rightarrow> error + database" where
  "delete_Ratings db w = Inr (db\<lparr>ratings := delete_rows w (ratings db)\<rparr>)"

definition delete_MediaItemTags ::
  "database \<Rightarrow> (MediaItemTags \<Rightarrow> bool) \<Rightarrow> error + database" where
  "delete_MediaItemTags db w =
     Inr (db\<lparr>media_item_tags := filter (\<lambda>r. \<not> w r) (media_item_tags db)\<rparr>)"

subsection \<open>The update of the catalogue\<close>

text \<open>
  \<^verbatim>\<open>UPDATE Users SET user_level_id =
    (SELECT level_id FROM UserLevels WHERE level_name = 'Admin')
    WHERE user_id = 2;\<close>
  with the level name and the user id as arguments.\<close>

definition update_user_level :: "collation \<Rightarrow> database \<Rightarrow> string \<Rightarrow> int \<Rightarrow> error + database" where
  "update_user_level coll db name uid =
     (case scalar_subquery
             (map UserLevels.level_id
                (filter (\<lambda>l. coll (UserLevels.level_name l) name) (rows (user_levels db)))) of
        Inl e \<Rightarrow> Inl e
      | Inr lvl \<Rightarrow>
          Inr (db\<lparr>users := (users db)\<lparr>rows :=
                 map (\<lambda>u. if Users.user_id u = uid then u\<lparr>user_level_id := lvl\<rparr> else u)
                   (rows (users db))\<rparr>\<rparr>))"

subsection \<open>Statements\<close>

datatype statement =
    InsertUserLevels "string option"
  | InsertUsers timestamp "string option" "string option" "string option" "int option"
  | InsertMediaItems timestamp "int option" "string option" "int option" "string option"
      "string option" "string option"
  | InsertComments timestamp "int option" "int option" "string option"
  | InsertLikes timestamp "int option" "int option"
  | InsertRatings timestamp "int option" "int option" "int option"
  | InsertTags "string option"
  | InsertMediaItemTags "int option" "int option"
  | DeleteUserLevels "UserLevels \<Rightarrow> bool"
  | DeleteUsers "Users \<Rightarrow> bool"
  | DeleteMediaItems "MediaItems \<Rightarrow> bool"
  | DeleteComments "Comments \<Rightarrow> bool"
  | DeleteLikes "Likes \<Rightarrow> bool"
  | DeleteRatings "Ratings \<Rightarrow> bool"
  | DeleteTags "Tags \<Rightarrow> bool"
  | DeleteMediaItemTags "MediaItemTags \<Rightarrow> bool"
  | UpdateUserLevel string int

fun exec :: "collation \<Rightarrow> database \<Rightarrow> statement \<Rightarrow> error + database" where
  "exec coll db (InsertUserLevels n) = map_sum id snd (insert_UserLevels db n)"
| "exec coll db (InsertUsers now u p e l) = map_sum id snd (insert_Users coll db now u p e l)"
| "exec coll db (InsertMediaItems now u f s m t d) =
     map_sum id snd (insert_MediaItems db now u f s m t d)"
| "exec coll db (InsertComments now m u c) = map_sum id snd (insert_Comments db now m u c)"
| "exec coll db (InsertLikes now m u) = map_sum id snd (insert_Likes db now m u)"
| "exec coll db (InsertRatings now m u v) = map_sum id snd (insert_Ratings db now m u v)"
| "exec coll db (InsertTags n) = map_sum id snd (insert_Tags db n)"
| "exec coll db (InsertMediaItemTags m t) = insert_MediaItemTags db m t"
| "exec coll db (DeleteUserLevels w) = delete_UserLevels db w"
| "exec coll db (DeleteUsers w) = delete_Users db w"
| "exec coll db (DeleteMediaItems w) = delete_MediaItems db w"
| "exec coll db (DeleteComments w) = delete_Comments db w"
| "exec coll db (DeleteLikes w) = delete_Likes db w"
| "exec coll db (DeleteRatings w) = delete_Ratings db w"
| "exec coll db (DeleteTags w) = delete_Tags db w"
| "exec coll db (DeleteMediaItemTags w) = delete_MediaItemTags db w"
| "exec coll db (UpdateUserLevel n u) = update_user_level coll db n u"

text \<open>A failed statement changes nothing; the database after a statement is the old one
  in that case.\<close>

definition apply_stmt :: "collation \<Rightarrow> database \<Rightarrow> statement \<Rightarrow> database" where
  "apply_stmt coll db s = (case exec coll db s of Inl e \<Rightarrow> db | Inr db' \<Rightarrow> db')"

definition run :: "collation \<Rightarrow> database \<Rightarrow> statement list \<Rightarrow> database" where
  "run coll db ss = foldl (apply_stmt coll) db ss"

subsection \<open>The sample data\<close>

definition seed_script :: "statement list" where
  "seed_script =
    [InsertUserLevels (Some ''Admin''), InsertUserLevels (Some ''User''),
     InsertUserLevels (Some ''Guest''),
     InsertUsers 0 (Some ''JohnDoe'') (Some ''to-be-hashed-pw1'') (Some ''johndoe@example.com'')
       (Some 2),
     InsertUsers 0 (Some ''JaneSmith'') (Some ''to-be-hashed-pw2'')
       (Some ''janesmith@example.com'') (Some 2),
     InsertUsers 0 (Some ''Anon5468'') (Some ''to-be-hashed-pw3'') (Some ''anon5468@example.com'')
       (Some 2),
     InsertUsers 0 (Some ''AdminUser'') (Some ''to-be-hashed-pw4'')
       (Some ''adminuser@example.com'') (Some 1),
     InsertMediaItems 0 (Some 1) (Some ''sunset.jpg'') (Some 1024) (Some ''image/jpeg'')
       (Some ''Sunset'') (Some ''A beautiful sunset''),
     InsertMediaItems 0 (Some 2) (Some ''sample.mp4'') (Some 20480) (Some ''video/mp4'')
       (Some ''Sample Video'') (Some ''A sample video file''),
     InsertMediaItems 0 (Some 2) (Some ''ffd8.jpg'') (Some 2048) (Some ''image/jpeg'')
       (Some ''Favorite food'') None,
     InsertMediaItems 0 (Some 1) (Some ''2f9b.jpg'') (Some 1024) (Some ''image/jpeg'')
       (Some ''Aksux and Jane'') (Some ''friends''),
     InsertComments 0 (Some 1) (Some 2) (Some ''This is a wonderful photo!''),
     InsertComments 0 (Some 2) (Some 1) (Some ''Really nice video, thanks for sharing!''),
     InsertLikes 0 (Some 1) (Some 2), InsertLikes 0 (Some 2) (Some 1),
     InsertLikes 0 (Some 2) (Some 2), InsertLikes 0 (Some 3) (Some 1),
     InsertLikes 0 (Some 2) (Some 3), InsertLikes 0 (Some 3) (Some 3),
     InsertRatings 0 (Some 1) (Some 2) (Some 5), InsertRatings 0 (Some 2) (Some 1) (Some 4),
     InsertRatings 0 (Some 1) (Some 3) (Some 4),
     InsertTags (Some ''Nature''), InsertTags (Some ''Video''),
     InsertTags (Some ''Documentary''), InsertTags (Some ''Landscape''),
     InsertMediaItemTags (Some 1) (Some 1), InsertMediaItemTags (Some 1) (Some 4),
     InsertMediaItemTags (Some 2) (Some 2), InsertMediaItemTags (Some 3) (Some 1),
     InsertMediaItemTags (Some 2) (Some 3)]"

text \<open>The database the script leaves, written out (sample rows are created at time 0).\<close>

definition seed_db :: database where
  "seed_db =
    \<lparr>user_levels = \<lparr>rows =
       [\<lparr>UserLevels.level_id = 1, level_name = ''Admin''\<rparr>,
        \<lparr>UserLevels.level_id = 2, level_name = ''User''\<rparr>,
        \<lparr>UserLevels.level_id = 3, level_name = ''Guest''\<rparr>], auto_increment = 4\<rparr>,
     users = \<lparr>rows =
       [\<lparr>Users.user_id = 1, username = ''JohnDoe'', password = ''to-be-hashed-pw1'',
          email = ''johndoe@example.com'', user_level_id = Some 2, created_at = 0\<rparr>,
        \<lparr>Users.user_id = 2, username = ''JaneSmith'', password = ''to-be-hashed-pw2'',
          email = ''janesmith@example.com'', user_level_id = Some 2, created_at = 0\<rparr>,
        \<lparr>Users.user_id = 3, username = ''Anon5468'', password = ''to-be-hashed-pw3'',
          email = ''anon5468@example.com'', user_level_id = Some 2, created_at = 0\<rparr>,
        \<lparr>Users.user_id = 4, username = ''AdminUser'', password = ''to-be-hashed-pw4'',
          email = ''adminuser@example.com'', user_level_id = Some 1, created_at = 0\<rparr>],
       auto_increment = 5\<rparr>,
     media_items = \<lparr>rows =
       [\<lparr>MediaItems.media_id = 1, user_id = 1, filename = ''sunset.jpg'', filesize = 1024,
          media_type = ''image/jpeg'', title = ''Sunset'',
          description = Some ''A beautiful sunset'', created_at = 0\<rparr>,
        \<lparr>MediaItems.media_id = 2, user_id = 2, filename = ''sample.mp4'', filesize = 20480,
          media_type = ''video/mp4'', title = ''Sample Video'',
          description = Some ''A sample video file'', created_at = 0\<rparr>,
        \<lparr>MediaItems.media_id = 3, user_id = 2, filename = ''ffd8.jpg'', filesize = 2048,
          media_type = ''image/jpeg'', title = ''Favorite food'',
          description = None, created_at = 0\<rparr>,
        \<lparr>MediaItems.media_id = 4, user_id = 1, filename = ''2f9b.jpg'', filesize = 1024,
          media_type = ''image/jpeg'', title = ''Aksux and Jane'',
          description = Some ''friends'', created_at = 0\<rparr>], auto_increment = 5\<rparr>,
     comments = \<lparr>rows =
       [\<lparr>Comments.comment_id = 1, media_id = 1, user_id = 2,
          comment_text = ''This is a wonderful photo!'', created_at = 0\<rparr>,
        \<lparr>Comments.comment_id = 2, media_id = 2, user_id = 1,
          comment_text = ''Really nice video, thanks for sharing!'', created_at = 0\<rparr>],
       auto_increment = 3\<rparr>,
     likes = \<lparr>rows =
       [\<lparr>Likes.like_id = 1, media_id = 1, user_id = 2, created_at = 0\<rparr>,
        \<lparr>Likes.like_id = 2, media_id = 2, user_id = 1, created_at = 0\<rparr>,
        \<lparr>Likes.like_id = 3, media_id = 2, user_id = 2, created_at = 0\<rparr>,
        \<lparr>Likes.like_id = 4, media_id = 3, user_id = 1, created_at = 0\<rparr>,
        \<lparr>Likes.like_id = 5, media_id = 2, user_id = 3, created_at = 0\<rparr>,
        \<lparr>Likes.like_id = 6, media_id = 3, user_id = 3, created_at = 0\<rparr>],
       auto_increment = 7\<rparr>,
     ratings = \<lparr>rows =
       [\<lparr>Ratings.rating_id = 1, media_id = 1, user_id = 2, rating_value = 5, created_at = 0\<rparr>,
        \<lparr>Ratings.rating_id = 2, media_id = 2, user_id = 1, rating_value = 4, created_at = 0\<rparr>,
        \<lparr>Ratings.rating_id = 3, media_id = 1, user_id = 3, rating_value = 4, created_at = 0\<rparr>],
       auto_increment = 4\<rparr>,
     tags = \<lparr>rows =
       [\<lparr>Tags.tag_id = 1, tag_name = ''Nature''\<rparr>, \<lparr>Tags.tag_id = 2, tag_name = ''Video''\<rparr>,
        \<lparr>Tags.tag_id = 3, tag_name = ''Documentary''\<rparr>,
        \<lparr>Tags.tag_id = 4, tag_name = ''Landscape''\<rparr>], auto_increment = 5\<rparr>,
     media_item_tags =
       [\<lparr>MediaItemTags.media_id = 1, tag_id = 1\<rparr>, \<lparr>MediaItemTags.media_id = 1, tag_id = 4\<rparr>,
        \<lparr>MediaItemTags.media_id = 2, tag_id = 2\<rparr>, \<lparr>MediaItemTags.media_id = 3, tag_id = 1\<rparr>,
        \<lparr>MediaItemTags.media_id = 2, tag_id = 3\<rparr>]\<rparr>"

subsection \<open>Invariants of the store\<close>

text \<open>A foreign key holds when every reference of the child column is a key of the
  parent table.\<close>

definition fk_ok :: "int list \<Rightarrow> int list \<Rightarrow> bool" where
  "fk_ok refs keys = (set refs \<subseteq> set keys)"

text \<open>The ten foreign keys of the script. \<^verbatim>\<open>Users.user_level_id\<close> is the only nullable
  one.\<close>

definition referential_integrity :: "database \<Rightarrow> bool" where
  "referential_integrity db \<longleftrightarrow>
     fk_ok (non_null (map Users.user_level_id (rows (users db)))) (level_ids db) \<and>
     fk_ok (map MediaItems.user_id (rows (media_items db))) (user_ids db) \<and>
     fk_ok (map Comments.media_id (rows (comments db))) (media_ids db) \<and>
     fk_ok (map Comments.user_id (rows (comments db))) (user_ids db) \<and>
     fk_ok (map Likes.media_id (rows (likes db))) (media_ids db) \<and>
     fk_ok (map Likes.user_id (rows (likes db))) (user_ids db) \<and>
     fk_ok (map Ratings.media_id (rows (ratings db))) (media_ids db) \<and>
     fk_ok (map Ratings.user_id (rows (ratings db))) (user_ids db) \<and>
     fk_ok (map MediaItemTags.media_id (media_item_tags db)) (media_ids db) \<and>
     fk_ok (map MediaItemTags.tag_id (media_item_tags db)) (tag_ids db)"

definition ratings_in_range :: "database \<Rightarrow> bool" where
  "ratings_in_range db =
     list_all (\<lambda>r. 1 \<le> Ratings.rating_value r \<and> Ratings.rating_value r \<le> 5)
       (rows (ratings db))"

subsection \<open>Queries with GROUP BY\<close>

text \<open>
  A result row is a list of values; a table row is seen by a query as its columns by name.
  \<^verbatim>\<open>SELECT sel FROM T GROUP BY g\<close> is evaluated on the rows of \<open>T\<close>: the groups are taken
  in the order in which their first row appears, and one result row is made per group.
  The select list is checked first (\<open>check_projection\<close> below). The aggregate modelled is
  \<^verbatim>\<open>COUNT(c)\<close>, the number of rows of the group whose \<open>c\<close> is not \<^verbatim>\<open>NULL\<close>.
\<close>

datatype val = VNull | VInt int | VStr string

type_synonym row = "(string \<times> val) list"

definition MediaItems_columns :: "string list" where
  "MediaItems_columns = [''media_id'', ''user_id'', ''filename'', ''filesize'', ''media_type'',
     ''title'', ''description'', ''created_at'']"

definition MediaItems_row :: "MediaItems \<Rightarrow> row" where
  "MediaItems_row m =
     [(''media_id'', VInt (MediaItems.media_id m)), (''user_id'', VInt (MediaItems.user_id m)),
      (''filename'', VStr (MediaItems.filename m)), (''filesize'', VInt (MediaItems.filesize m)),
      (''media_type'', VStr (MediaItems.media_type m)), (''title'', VStr (MediaItems.title m)),
      (''description'', (case MediaItems.description m of None \<Rightarrow> VNull | Some d \<Rightarrow> VStr d)),
      (''created_at'', VInt (int (MediaItems.created_at m)))]"

definition Likes_columns :: "string list" where
  "Likes_columns = [''like_id'', ''media_id'', ''user_id'', ''created_at'']"

definition Likes_row :: "Likes \<Rightarrow> row" where
  "Likes_row l =
     [(''like_id'', VInt (Likes.like_id l)), (''media_id'', VInt (Likes.media_id l)),
      (''user_id'', VInt (Likes.user_id l)), (''created_at'', VInt (int (Likes.created_at l)))]"

datatype select_expr = Col string | Count string

fun column_of :: "select_expr \<Rightarrow> string" where
  "column_of (Col c) = c"
| "column_of (Count c) = c"

text \<open>Modelled from the spec: the rule for the select list of a grouped query. The
  check is made by the database engine, which is not part of the repository. The lecture
  gives the rule (if grouping is used, only columns that are part of \<^verbatim>\<open>GROUP BY\<close> or part
  of an aggregate function can be selected) and calls a query that breaks it ambiguous.\<close>

fun grouped_or_aggregated :: "string list \<Rightarrow> select_expr \<Rightarrow> bool" where
  "grouped_or_aggregated g (Col c) = (c \<in> set g)"
| "grouped_or_aggregated g (Count c) = True"

text \<open>Modelled from the spec: the outcome of the engine's check. The specification says
  that a query selecting a column that is neither grouped nor aggregated is rejected with
  \<open>AmbiguousProjection\<close>; the lecture only calls it ambiguous, and the script sets no
  mode of the engine that would fix the outcome.\<close>

definition check_projection :: "string list \<Rightarrow> select_expr list \<Rightarrow> error option" where
  "check_projection g sel =
     (if list_all (grouped_or_aggregated g) sel then None else Some AmbiguousProjection)"

definition cell :: "row \<Rightarrow> string \<Rightarrow> val" where
  "cell r c = (case map_of r c of Some v \<Rightarrow> v | None \<Rightarrow> VNull)"

fun same_val :: "collation \<Rightarrow> val \<Rightarrow> val \<Rightarrow> bool" where
  "same_val coll VNull VNull = True"
| "same_val coll (VInt a) (VInt b) = (a = b)"
| "same_val coll (VStr a) (VStr b) = coll a b"
| "same_val coll _ _ = False"

definition same_group :: "collation \<Rightarrow> string list \<Rightarrow> row \<Rightarrow> row \<Rightarrow> bool" where
  "same_group coll g r r' = list_all (\<lambda>c. same_val coll (cell r c) (cell r' c)) g"

fun group_rows :: "collation \<Rightarrow> string list \<Rightarrow> row list \<Rightarrow> row list list" where
  "group_rows coll g [] = []"
| "group_rows coll g (r # rs) =
     (r # filter (same_group coll g r) rs)
       # group_rows coll g (filter (\<lambda>x. \<not> same_group coll g r x) rs)"

fun eval_select :: "row list \<Rightarrow> select_expr \<Rightarrow> val" where
  "eval_select grp (Col c) = (case grp of [] \<Rightarrow> VNull | r # _ \<Rightarrow> cell r c)"
| "eval_select grp (Count c) = VInt (int (length (filter (\<lambda>r. cell r c \<noteq> VNull) grp)))"

text \<open>Modelled from the spec: the rejection of an ambiguous select list, which is
  \<open>check_projection\<close> and stands for the engine's check. The grouping and the result rows
  follow the text of the query.\<close>

definition select_group_by ::
  "collation \<Rightarrow> string list \<Rightarrow> select_expr list \<Rightarrow> string list \<Rightarrow> row list \<Rightarrow>
     error + val list list" where
  "select_group_by coll columns sel g rs =
     (if \<not> list_all (\<lambda>c. c \<in> set columns) (map column_of sel @ g) then Inl UnknownColumn
      else case check_projection g sel of
             Some e \<Rightarrow> Inl e
           | None \<Rightarrow> Inr (map (\<lambda>grp. map (eval_select grp) sel) (group_rows coll g rs)))"

text \<open>\<^verbatim>\<open>ORDER BY k DESC\<close> on the \<open>k\<close>-th selected expression, a count in the catalogue:
  a stable insertion sort, so rows with the same key stay in group order (SQL leaves
  that order open). \<^verbatim>\<open>LIMIT n\<close> is \<open>take n\<close>.\<close>

fun val_less :: "val \<Rightarrow> val \<Rightarrow> bool" where
  "val_less VNull (VInt b) = True"
| "val_less (VInt a) (VInt b) = (a < b)"
| "val_less _ _ = False"

definition field :: "val list \<Rightarrow> nat \<Rightarrow> val" where
  "field r k = (if k < length r then r ! k else VNull)"

fun insert_desc :: "nat \<Rightarrow> val list \<Rightarrow> val list list \<Rightarrow> val list list" where
  "insert_desc k r [] = [r]"
| "insert_desc k r (x # xs) =
     (if val_less (field r k) (field x k) then x # insert_desc k r xs else r # x # xs)"

definition order_by_desc :: "nat \<Rightarrow> val list list \<Rightarrow> val list list" where
  "order_by_desc k rs = foldr (insert_desc k) rs []"

text \<open>
  \<^verbatim>\<open>SELECT media_id, COUNT(media_id) AS likes FROM Likes GROUP BY media_id
    ORDER BY likes DESC LIMIT 1;\<close>
  first without its last line, then whole.\<close>

definition likes_per_media :: "collation \<Rightarrow> database \<Rightarrow> error + val list list" where
  "likes_per_media coll db =
     select_group_by coll Likes_columns [Col ''media_id'', Count ''media_id''] [''media_id'']
       (map Likes_row (rows (likes db)))"

definition most_likes_query :: "collation \<Rightarrow> database \<Rightarrow> error + val list list" where
  "most_likes_query coll db =
     (case likes_per_media coll db of
        Inl e \<Rightarrow> Inl e
      | Inr rs \<Rightarrow> Inr (take 1 (order_by_desc 1 rs)))"

text \<open>\<^verbatim>\<open>SELECT sel FROM MediaItems GROUP BY media_type;\<close> for any select list.\<close>

definition media_by_type_query ::
  "collation \<Rightarrow> database \<Rightarrow> select_expr list \<Rightarrow> error + val list list" where
  "media_by_type_query coll db sel =
     select_group_by coll MediaItems_columns sel [''media_type'']
       (map MediaItems_row (rows (media_items db)))"

text \<open>\<^verbatim>\<open>SELECT media_type, filesize FROM MediaItems GROUP BY media_type;\<close>\<close>

definition ambiguous_query :: "collation \<Rightarrow> database \<Rightarrow> error + val list list" where
  "ambiguous_query coll db =
     select_group_by coll MediaItems_columns [Col ''media_type'', Col ''filesize'']
       [''media_type''] (map MediaItems_row (rows (media_items db)))"

text \<open>\<^verbatim>\<open>SELECT media_type FROM MediaItems GROUP BY media_type;\<close>\<close>

definition media_types_query :: "collation \<Rightarrow> database \<Rightarrow> error + val list list" where
  "media_types_query coll db =
     select_group_by coll MediaItems_columns [Col ''media_type''] [''media_type'']
       (map MediaItems_row (rows (media_items db)))"

text \<open>\<^verbatim>\<open>SELECT media_type, filesize FROM MediaItems GROUP BY media_type, filesize;\<close>\<close>

definition media_types_sizes_query :: "collation \<Rightarrow> database \<Rightarrow> error + val list list" where
  "media_types_sizes_query coll db =
     select_group_by coll MediaItems_columns [Col ''media_type'', Col ''filesize'']
       [''media_type'', ''filesize''] (map MediaItems_row (rows (media_items db)))"

subsection \<open>The subquery for the tag Nature\<close>

text \<open>
  \<^verbatim>\<open>SELECT title, description, filename FROM MediaItems
    WHERE media_id IN (
      SELECT media_id FROM MediaItemTags WHERE tag_id = (
        SELECT tag_id FROM Tags WHERE tag_name = 'Nature'));\<close>
  The innermost query is executed first. It is a scalar subquery; a comparison with
  \<^verbatim>\<open>NULL\<close> holds for no row.\<close>

definition projection :: "MediaItems \<Rightarrow> string \<times> string option \<times> string" where
  "projection m = (MediaItems.title m, MediaItems.description m, MediaItems.filename m)"

definition nature_query ::
  "collation \<Rightarrow> database \<Rightarrow> error + (string \<times> string option \<times> string) list" where
  "nature_query coll db =
     (case scalar_subquery
             (map Tags.tag_id (filter (\<lambda>t. coll (Tags.tag_name t) ''Nature'') (rows (tags db)))) of
        Inl e \<Rightarrow> Inl e
      | Inr tid \<Rightarrow>
          let mids = map MediaItemTags.media_id
                       (filter (\<lambda>x. Some (MediaItemTags.tag_id x) = tid) (media_item_tags db))
          in Inr (map projection
                    (filter (\<lambda>m. MediaItems.media_id m \<in> set mids) (rows (media_items db)))))"

text \<open>The specification's reading of the same result: the media rows whose id appears in
  \<^verbatim>\<open>MediaItemTags\<close> joined to a \<^verbatim>\<open>Tags\<close> row named Nature.\<close>

definition nature_tagged :: "collation \<Rightarrow> database \<Rightarrow> MediaItems list" where
  "nature_tagged coll db =
     filter (\<lambda>m. \<exists>x \<in> set (media_item_tags db). \<exists>t \<in> set (rows (tags db)).
                MediaItemTags.media_id x = MediaItems.media_id m \<and>
                MediaItemTags.tag_id x = Tags.tag_id t \<and> coll (Tags.tag_name t) ''Nature'')
       (rows (media_items db))"

text \<open>The sample data with a second tag named Nature.\<close>

definition two_nature_db :: database where
  "two_nature_db = apply_stmt (=) seed_db (InsertTags (Some ''Nature''))"

subsection \<open>The model function addUser\<close>

text \<open>
  \<^verbatim>\<open>const addUser = async (user) => {
    try {
      const sql = `INSERT INTO Users (username, email, password, user_level_id)
                  VALUES (?, ?, ?, ?)`;
      // user level id defaults to 2 (normal user)
      const params = [user.username, user.email, user.password, 2];
      const result = await promisePool.query(sql, params);
      return result[0].insertId;
    } catch (e) {
      console.error('error', e.message);
      return {error: e.message};
    }
  }\<close>
  The argument is the request body; a property it does not have is sent as \<^verbatim>\<open>NULL\<close>.
  The function returns the generated key, or the error of the statement.\<close>

record user_object =
  username :: "string option"
  email :: "string option"
  password :: "string option"
  user_level_id :: "int option"


section \<open>Properties\<close>

subsection \<open>Foreign keys: auxiliary facts\<close>

lemmas key_defs = level_ids_def user_ids_def media_ids_def tag_ids_def

lemma set_non_null: "set (non_null vs) = {x. Some x \<in> set vs}"
  by (induction vs) (auto simp: non_null_def split: option.splits)

lemma non_null_mem: "x \<in> set (non_null vs) \<longleftrightarrow> Some x \<in> set vs"
  by (simp add: set_non_null)

lemma fk_ok_restrict:
  "fk_ok refs (map k rs) \<Longrightarrow> \<not> referenced (map k (filter w rs)) refs \<Longrightarrow>
   fk_ok refs (map k (filter (\<lambda>r. \<not> w r) rs))"
  by (auto simp: fk_ok_def referenced_def)

lemma fk_ok_filter_refs: "fk_ok (map f rs) keys \<Longrightarrow> fk_ok (map f (filter p rs)) keys"
  by (auto simp: fk_ok_def)

lemma fk_ok_non_null_filter:
  "fk_ok (non_null (map f rs)) keys \<Longrightarrow> fk_ok (non_null (map f (filter p rs))) keys"
  by (auto simp: fk_ok_def set_non_null)

lemma fk_ok_more_keys: "fk_ok refs keys \<Longrightarrow> fk_ok refs (keys @ [k])"
  by (auto simp: fk_ok_def)

lemma fk_ok_new_ref: "fk_ok refs keys \<Longrightarrow> r \<in> set keys \<Longrightarrow> fk_ok (refs @ [r]) keys"
  by (auto simp: fk_ok_def)

lemma fk_ok_new_null_ref:
  "fk_ok (non_null vs) keys \<Longrightarrow> references v keys \<Longrightarrow> fk_ok (non_null (vs @ [v])) keys"
  by (cases v) (auto simp: fk_ok_def set_non_null)

subsection \<open>Every statement preserves referential integrity\<close>

lemma insert_UserLevels_ri:
  "referential_integrity db \<Longrightarrow> insert_UserLevels db n = Inr (i, db') \<Longrightarrow> referential_integrity db'"
  by (auto simp: insert_UserLevels_def referential_integrity_def key_defs append_row_def Let_def
        fk_ok_more_keys split: option.splits)

lemma insert_Users_ri:
  "referential_integrity db \<Longrightarrow> insert_Users coll db now u p e l = Inr (i, db') \<Longrightarrow>
   referential_integrity db'"
  by (auto simp: insert_Users_def referential_integrity_def key_defs append_row_def Let_def
        fk_ok_more_keys fk_ok_new_null_ref split: option.splits if_splits)

lemma insert_MediaItems_ri:
  "referential_integrity db \<Longrightarrow> insert_MediaItems db now u f s m t d = Inr (i, db') \<Longrightarrow>
   referential_integrity db'"
  by (auto simp: insert_MediaItems_def referential_integrity_def key_defs append_row_def Let_def
        fk_ok_more_keys fk_ok_new_ref split: option.splits if_splits)

lemma insert_Comments_ri:
  "referential_integrity db \<Longrightarrow> insert_Comments db now m u c = Inr (i, db') \<Longrightarrow>
   referential_integrity db'"
  by (auto simp: insert_Comments_def referential_integrity_def key_defs append_row_def Let_def
        fk_ok_new_ref split: option.splits if_splits)

lemma insert_Likes_ri:
  "referential_integrity db \<Longrightarrow> insert_Likes db now m u = Inr (i, db') \<Longrightarrow>
   referential_integrity db'"
  by (auto simp: insert_Likes_def referential_integrity_def key_defs append_row_def Let_def
        fk_ok_new_ref split: option.splits if_splits)

lemma insert_Ratings_ri:
  "referential_integrity db \<Longrightarrow> insert_Ratings db now m u v = Inr (i, db') \<Longrightarrow>
   referential_integrity db'"
  by (auto simp: insert_Ratings_def referential_integrity_def key_defs append_row_def Let_def
        fk_ok_new_ref split: option.splits if_splits)

lemma insert_Tags_ri:
  "referential_integrity db \<Longrightarrow> insert_Tags db n = Inr (i, db') \<Longrightarrow> referential_integrity db'"
  by (auto simp: insert_Tags_def referential_integrity_def key_defs append_row_def Let_def
        fk_ok_more_keys split: option.splits)

lemma insert_MediaItemTags_ri:
  "referential_integrity db \<Longrightarrow> insert_MediaItemTags db m t = Inr db' \<Longrightarrow>
   referential_integrity db'"
  by (auto simp: insert_MediaItemTags_def referential_integrity_def key_defs Let_def
        fk_ok_new_ref split: option.splits if_splits)

lemma delete_UserLevels_ri:
  "referential_integrity db \<Longrightarrow> delete_UserLevels db w = Inr db' \<Longrightarrow> referential_integrity db'"
  by (auto simp: delete_UserLevels_def referential_integrity_def key_defs delete_rows_def Let_def
        fk_ok_restrict split: if_splits)

lemma delete_Users_ri:
  "referential_integrity db \<Longrightarrow> delete_Users db w = Inr db' \<Longrightarrow> referential_integrity db'"
  by (auto simp: delete_Users_def referential_integrity_def key_defs delete_rows_def Let_def
        fk_ok_restrict fk_ok_non_null_filter split: if_splits)

lemma delete_MediaItems_ri:
  "referential_integrity db \<Longrightarrow> delete_MediaItems db w = Inr db' \<Longrightarrow> referential_integrity db'"
  by (auto simp: delete_MediaItems_def referential_integrity_def key_defs delete_rows_def Let_def
        fk_ok_restrict fk_ok_filter_refs split: if_splits)

lemma delete_Tags_ri:
  "referential_integrity db \<Longrightarrow> delete_Tags db w = Inr db' \<Longrightarrow> referential_integrity db'"
  by (auto simp: delete_Tags_def referential_integrity_def key_defs delete_rows_def Let_def
        fk_ok_restrict split: if_splits)

lemma delete_Comments_ri:
  "referential_integrity db \<Longrightarrow> delete_Comments db w = Inr db' \<Longrightarrow> referential_integrity db'"
  by (auto simp: delete_Comments_def referential_integrity_def key_defs delete_rows_def
        fk_ok_filter_refs)

lemma delete_Likes_ri:
  "referential_integrity db \<Longrightarrow> delete_Likes db w = Inr db' \<Longrightarrow> referential_integrity db'"
  by (auto simp: delete_Likes_def referential_integrity_def key_defs delete_rows_def
        fk_ok_filter_refs)

lemma delete_Ratings_ri:
  "referential_integrity db \<Longrightarrow> delete_Ratings db w = Inr db' \<Longrightarrow> referential_integrity db'"
  by (auto simp: delete_Ratings_def referential_integrity_def key_defs delete_rows_def
        fk_ok_filter_refs)

lemma delete_MediaItemTags_ri:
  "referential_integrity db \<Longrightarrow> delete_MediaItemTags db w = Inr db' \<Longrightarrow>
   referential_integrity db'"
  by (auto simp: delete_MediaItemTags_def referential_integrity_def key_defs fk_ok_filter_refs)


lemma scalar_subquery_member: "scalar_subquery xs = Inr (Some x) \<Longrightarrow> x \<in> set xs"
  by (cases xs rule: scalar_subquery.cases) auto

lemma fk_ok_update_level:
  "fk_ok (non_null (map Users.user_level_id us)) keys \<Longrightarrow> references lvl keys \<Longrightarrow>
   fk_ok (non_null (map (Users.user_level_id \<circ>
     (\<lambda>u. if Users.user_id u = uid then u\<lparr>Users.user_level_id := lvl\<rparr> else u)) us)) keys"
  by (cases lvl) (fastforce simp: fk_ok_def subset_iff non_null_mem split: if_splits)+

lemma user_id_update_level:
  "Users.user_id \<circ> (\<lambda>u. if Users.user_id u = uid then u\<lparr>Users.user_level_id := lvl\<rparr> else u)
     = Users.user_id"
  by (auto simp: fun_eq_iff)

lemma update_user_level_ri:
  assumes "referential_integrity db" and "update_user_level coll db n uid = Inr db'"
  shows "referential_integrity db'"
proof -
  let ?q = "scalar_subquery (map UserLevels.level_id
              (filter (\<lambda>l. coll (UserLevels.level_name l) n) (rows (user_levels db))))"
  from assms(2) obtain lvl where q: "?q = Inr lvl"
    and db': "db' = db\<lparr>users := (users db)\<lparr>rows :=
                 map (\<lambda>u. if Users.user_id u = uid then u\<lparr>Users.user_level_id := lvl\<rparr> else u)
                   (rows (users db))\<rparr>\<rparr>"
    by (auto simp: update_user_level_def split: sum.splits)
  have "references lvl (level_ids db)"
  proof (cases lvl)
    case None then show ?thesis by simp
  next
    case (Some x)
    with q have "x \<in> set (map UserLevels.level_id
              (filter (\<lambda>l. coll (UserLevels.level_name l) n) (rows (user_levels db))))"
      by (auto dest: scalar_subquery_member)
    with Some show ?thesis by (auto simp: level_ids_def)
  qed
  then show ?thesis using assms(1) unfolding db'
    by (simp add: referential_integrity_def key_defs fk_ok_update_level user_id_update_level)
qed

lemma map_sum_snd_Inr: "map_sum id snd r = Inr db' \<Longrightarrow> \<exists>i. r = Inr (i, db')"
  by (cases r) auto

lemma exec_preserves_ri:
  assumes "referential_integrity db" and "exec coll db s = Inr db'"
  shows "referential_integrity db'"
proof (cases s)
  case (InsertUserLevels n)
  with assms show ?thesis by (auto dest!: map_sum_snd_Inr intro: insert_UserLevels_ri)
next
  case (InsertUsers now u p e l)
  with assms show ?thesis by (auto dest!: map_sum_snd_Inr intro: insert_Users_ri)
next
  case (InsertMediaItems now u f sz m t d)
  with assms show ?thesis by (auto dest!: map_sum_snd_Inr intro: insert_MediaItems_ri)
next
  case (InsertComments now m u c)
  with assms show ?thesis by (auto dest!: map_sum_snd_Inr intro: insert_Comments_ri)
next
  case (InsertLikes now m u)
  with assms show ?thesis by (auto dest!: map_sum_snd_Inr intro: insert_Likes_ri)
next
  case (InsertRatings now m u v)
  with assms show ?thesis by (auto dest!: map_sum_snd_Inr intro: insert_Ratings_ri)
next
  case (InsertTags n)
  with assms show ?thesis by (auto dest!: map_sum_snd_Inr intro: insert_Tags_ri)
next
  case (InsertMediaItemTags m t)
  with assms show ?thesis by (auto intro: insert_MediaItemTags_ri)
next
  case (DeleteUserLevels w)
  with assms show ?thesis by (auto intro: delete_UserLevels_ri)
next
  case (DeleteUsers w)
  with assms show ?thesis by (auto intro: delete_Users_ri)
next
  case (DeleteMediaItems w)
  with assms show ?thesis by (auto intro: delete_MediaItems_ri)
next
  case (DeleteComments w)
  with assms show ?thesis by (auto intro: delete_Comments_ri)
next
  case (DeleteLikes w)
  with assms show ?thesis by (auto intro: delete_Likes_ri)
next
  case (DeleteRatings w)
  with assms show ?thesis by (auto intro: delete_Ratings_ri)
next
  case (DeleteTags w)
  with assms show ?thesis by (auto intro: delete_Tags_ri)
next
  case (DeleteMediaItemTags w)
  with assms show ?thesis by (auto intro: delete_MediaItemTags_ri)
next
  case (UpdateUserLevel n u)
  with assms show ?thesis by (auto intro: update_user_level_ri)
qed

lemma apply_stmt_preserves_ri:
  "referential_integrity db \<Longrightarrow> referential_integrity (apply_stmt coll db s)"
  by (auto simp: apply_stmt_def split: sum.splits intro: exec_preserves_ri)

lemma run_preserves_ri:
  "referential_integrity db \<Longrightarrow> referential_integrity (run coll db ss)"
  unfolding run_def by (induction ss arbitrary: db) (auto intro: apply_stmt_preserves_ri)

lemma empty_db_ri: "referential_integrity empty_db"
  by (simp add: referential_integrity_def empty_db_def empty_table_def key_defs fk_ok_def non_null_def)


subsection \<open>The sample script runs without error\<close>

lemma seed_db_run: "run (=) empty_db seed_script = seed_db"
  by (simp add: run_def seed_script_def apply_stmt_def insert_UserLevels_def insert_Users_def
        insert_MediaItems_def insert_Comments_def insert_Likes_def insert_Ratings_def
        insert_Tags_def insert_MediaItemTags_def empty_db_def empty_table_def append_row_def
        key_defs seed_db_def Let_def)

lemma run_empty_db_ri: "referential_integrity (run coll empty_db ss)"
  by (rule run_preserves_ri [OF empty_db_ri])

subsection \<open>Every statement preserves the rating range\<close>

lemma exec_preserves_range:
  assumes "ratings_in_range db" and "exec coll db s = Inr db'"
  shows "ratings_in_range db'"
proof (cases s)
  case (InsertUserLevels n)
  with assms show ?thesis
    by (auto simp: insert_UserLevels_def ratings_in_range_def Let_def split: option.splits)
next
  case (InsertUsers now u p e l)
  with assms show ?thesis
    by (auto simp: insert_Users_def ratings_in_range_def Let_def split: option.splits if_splits)
next
  case (InsertMediaItems now u f sz m t d)
  with assms show ?thesis
    by (auto simp: insert_MediaItems_def ratings_in_range_def Let_def
          split: option.splits if_splits)
next
  case (InsertComments now m u c)
  with assms show ?thesis
    by (auto simp: insert_Comments_def ratings_in_range_def Let_def split: option.splits if_splits)
next
  case (InsertLikes now m u)
  with assms show ?thesis
    by (auto simp: insert_Likes_def ratings_in_range_def Let_def split: option.splits if_splits)
next
  case (InsertRatings now m u v)
  with assms show ?thesis
    by (auto simp: insert_Ratings_def ratings_in_range_def append_row_def Let_def
          split: option.splits if_splits)
next
  case (InsertTags n)
  with assms show ?thesis
    by (auto simp: insert_Tags_def ratings_in_range_def Let_def split: option.splits)
next
  case (InsertMediaItemTags m t)
  with assms show ?thesis
    by (auto simp: insert_MediaItemTags_def ratings_in_range_def split: option.splits if_splits)
next
  case (DeleteUserLevels w)
  with assms show ?thesis
    by (auto simp: delete_UserLevels_def ratings_in_range_def Let_def split: if_splits)
next
  case (DeleteUsers w)
  with assms show ?thesis
    by (auto simp: delete_Users_def ratings_in_range_def Let_def split: if_splits)
next
  case (DeleteMediaItems w)
  with assms show ?thesis
    by (auto simp: delete_MediaItems_def ratings_in_range_def Let_def split: if_splits)
next
  case (DeleteComments w)
  with assms show ?thesis by (auto simp: delete_Comments_def ratings_in_range_def)
next
  case (DeleteLikes w)
  with assms show ?thesis by (auto simp: delete_Likes_def ratings_in_range_def)
next
  case (DeleteRatings w)
  with assms show ?thesis
    by (auto simp: delete_Ratings_def ratings_in_range_def delete_rows_def list_all_iff)
next
  case (DeleteTags w)
  with assms show ?thesis
    by (auto simp: delete_Tags_def ratings_in_range_def Let_def split: if_splits)
next
  case (DeleteMediaItemTags w)
  with assms show ?thesis by (auto simp: delete_MediaItemTags_def ratings_in_range_def)
next
  case (UpdateUserLevel n u)
  with assms show ?thesis
    by (auto simp: update_user_level_def ratings_in_range_def split: sum.splits)
qed

lemma run_preserves_range: "ratings_in_range db \<Longrightarrow> ratings_in_range (run coll db ss)"
  unfolding run_def
  by (induction ss arbitrary: db)
     (auto simp: apply_stmt_def split: sum.splits intro: exec_preserves_range)

lemma empty_db_range: "ratings_in_range empty_db"
  by (simp add: ratings_in_range_def empty_db_def empty_table_def)

section \<open>The specified properties\<close>

subsection \<open>C1: media ownership\<close>

text \<open>
  Claim C1 (referential integrity of media ownership). In every database reached from the
  empty one by any sequence of statements, the \<^verbatim>\<open>user_id\<close> of every \<^verbatim>\<open>MediaItems\<close> row is
  the key of a \<^verbatim>\<open>Users\<close> row. An insert into \<^verbatim>\<open>MediaItems\<close> whose \<^verbatim>\<open>user_id\<close> is not the
  key of any \<^verbatim>\<open>Users\<close> row (\<^verbatim>\<open>NULL\<close> included) fails with \<open>ConstraintViolation\<close>, and the
  database after the statement is the one before it.
\<close>

theorem media_owner_integrity:
  "fk_ok (map MediaItems.user_id (rows (media_items (run coll empty_db ss))))
         (user_ids (run coll empty_db ss)) \<and>
   (uid \<notin> set (map Some (user_ids db)) \<longrightarrow>
      insert_MediaItems db now uid f s m t d = Inl ConstraintViolation \<and>
      apply_stmt coll db (InsertMediaItems now uid f s m t d) = db)"
proof (intro conjI impI)
  show "fk_ok (map MediaItems.user_id (rows (media_items (run coll empty_db ss))))
         (user_ids (run coll empty_db ss))"
    using run_empty_db_ri [of coll ss] by (simp add: referential_integrity_def)
next
  assume "uid \<notin> set (map Some (user_ids db))"
  then show r: "insert_MediaItems db now uid f s m t d = Inl ConstraintViolation"
    by (auto simp: insert_MediaItems_def split: option.splits)
  then show "apply_stmt coll db (InsertMediaItems now uid f s m t d) = db"
    by (simp add: apply_stmt_def)
qed

theorem media_owner_integrity_witness:
  "fk_ok (map MediaItems.user_id (rows (media_items seed_db))) (user_ids seed_db) \<and>
   insert_MediaItems seed_db 0 (Some 99) (Some ''x.jpg'') (Some 10) (Some ''image/jpeg'')
     (Some ''X'') None = Inl ConstraintViolation \<and>
   apply_stmt (=) seed_db (InsertMediaItems 0 (Some 99) (Some ''x.jpg'') (Some 10)
     (Some ''image/jpeg'') (Some ''X'') None) = seed_db"
proof -
  have h: "Some 99 \<notin> set (map Some (user_ids seed_db))"
    by (simp add: user_ids_def seed_db_def)
  show ?thesis
    using h media_owner_integrity [where coll = "(=)" and ss = seed_script and db = seed_db
        and uid = "Some 99" and now = 0 and f = "Some ''x.jpg''" and s = "Some 10"
        and m = "Some ''image/jpeg''" and t = "Some ''X''" and d = None]
    by (simp add: seed_db_run)
qed

subsection \<open>C2: rating values\<close>

text \<open>
  Claim C2 (rating value range). In every database reached from the empty one, the
  \<^verbatim>\<open>rating_value\<close> of every \<^verbatim>\<open>Ratings\<close> row lies in \<open>[1, 5]\<close>. An insert into \<^verbatim>\<open>Ratings\<close>
  with a value below 1 or above 5 (0 and 6 among them) fails with \<open>ConstraintViolation\<close>
  and leaves the database unchanged.
\<close>

theorem rating_value_range:
  "ratings_in_range (run coll empty_db ss) \<and>
   (v < 1 \<or> 5 < v \<longrightarrow>
      insert_Ratings db now mid uid (Some v) = Inl ConstraintViolation \<and>
      apply_stmt coll db (InsertRatings now mid uid (Some v)) = db)"
proof (intro conjI impI)
  show "ratings_in_range (run coll empty_db ss)"
    by (rule run_preserves_range [OF empty_db_range])
next
  assume "v < 1 \<or> 5 < v"
  then show r: "insert_Ratings db now mid uid (Some v) = Inl ConstraintViolation"
    by (auto simp: insert_Ratings_def split: option.splits)
  then show "apply_stmt coll db (InsertRatings now mid uid (Some v)) = db"
    by (simp add: apply_stmt_def)
qed

theorem rating_value_range_witness:
  "ratings_in_range seed_db \<and>
   insert_Ratings seed_db 0 (Some 1) (Some 1) (Some 0) = Inl ConstraintViolation \<and>
   apply_stmt (=) seed_db (InsertRatings 0 (Some 1) (Some 1) (Some 0)) = seed_db \<and>
   insert_Ratings seed_db 0 (Some 1) (Some 1) (Some 6) = Inl ConstraintViolation \<and>
   apply_stmt (=) seed_db (InsertRatings 0 (Some 1) (Some 1) (Some 6)) = seed_db"
  using rating_value_range [where coll = "(=)" and ss = seed_script and db = seed_db and v = 0
      and now = 0 and mid = "Some 1" and uid = "Some 1"]
    rating_value_range [where coll = "(=)" and ss = seed_script and db = seed_db and v = 6
      and now = 0 and mid = "Some 1" and uid = "Some 1"]
  by (simp add: seed_db_run)

subsection \<open>C3: the item with the most likes\<close>

text \<open>
  Claim C3 (the most-likes query on the sample data). Grouping the sample \<^verbatim>\<open>Likes\<close> rows by
  \<^verbatim>\<open>media_id\<close>, counting, ordering by the count descending and taking the first row
  yields \<^verbatim>\<open>media_id\<close> 2 with 3 likes. The counts per group are 1, 3 and 2 for the media
  items 1, 2 and 3, so no other item reaches 3 and there is no tie. The \<^verbatim>\<open>Likes\<close> rows
  used are those the script inserts.
\<close>

theorem most_likes_on_seed:
  "most_likes_query coll seed_db = Inr [[VInt 2, VInt 3]] \<and>
   likes_per_media coll seed_db = Inr [[VInt 1, VInt 1], [VInt 2, VInt 3], [VInt 3, VInt 2]] \<and>
   rows (likes (run (=) empty_db seed_script)) = rows (likes seed_db)"
proof -
  have g: "likes_per_media coll seed_db
             = Inr [[VInt 1, VInt 1], [VInt 2, VInt 3], [VInt 3, VInt 2]]"
    by (simp add: likes_per_media_def select_group_by_def check_projection_def seed_db_def Likes_columns_def
          Likes_row_def same_group_def cell_def)
  have "most_likes_query coll seed_db = Inr [[VInt 2, VInt 3]]"
    by (simp add: most_likes_query_def g order_by_desc_def field_def)
  with g show ?thesis by (simp add: seed_db_run)
qed

theorem most_likes_on_seed_witness:
  "most_likes_query (=) seed_db = Inr [[VInt 2, VInt 3]]"
  using most_likes_on_seed [of "(=)"] by simp

subsection \<open>C4: media items tagged Nature\<close>

lemma nature_query_at_most_one:
  assumes "length (filter (\<lambda>t. coll (Tags.tag_name t) ''Nature'') (rows (tags db))) \<le> 1"
  shows "nature_query coll db = Inr (map projection (nature_tagged coll db))"
proof -
  let ?F = "filter (\<lambda>t. coll (Tags.tag_name t) ''Nature'') (rows (tags db))"
  show ?thesis
  proof (cases ?F)
    case Nil
    then have none: "\<And>t. t \<in> set (rows (tags db)) \<Longrightarrow> \<not> coll (Tags.tag_name t) ''Nature''"
      by (simp add: filter_empty_conv)
    have "nature_tagged coll db = []"
      unfolding nature_tagged_def using none by (auto simp: filter_empty_conv)
    with Nil show ?thesis by (simp add: nature_query_def)
  next
    case (Cons t0 ts)
    with assms have F: "?F = [t0]" by simp
    have "set ?F = {t0}" by (simp add: F)
    then have "{t \<in> set (rows (tags db)). coll (Tags.tag_name t) ''Nature''} = {t0}"
      by simp
    then have t0: "t0 \<in> set (rows (tags db))" "coll (Tags.tag_name t0) ''Nature''"
      and only: "\<And>t. t \<in> set (rows (tags db)) \<Longrightarrow> coll (Tags.tag_name t) ''Nature'' \<Longrightarrow> t = t0"
      by auto
    have "nature_tagged coll db =
            filter (\<lambda>m. MediaItems.media_id m \<in> set (map MediaItemTags.media_id
               (filter (\<lambda>x. Some (MediaItemTags.tag_id x) = Some (Tags.tag_id t0))
                  (media_item_tags db)))) (rows (media_items db))"
      unfolding nature_tagged_def
    proof (rule filter_cong [OF refl])
      fix m :: MediaItems
      have "(\<exists>x\<in>set (media_item_tags db). \<exists>t\<in>set (rows (tags db)).
               MediaItemTags.media_id x = MediaItems.media_id m \<and>
               MediaItemTags.tag_id x = Tags.tag_id t \<and> coll (Tags.tag_name t) ''Nature'')
            \<longleftrightarrow> (\<exists>x\<in>set (media_item_tags db).
               MediaItemTags.media_id x = MediaItems.media_id m \<and>
               MediaItemTags.tag_id x = Tags.tag_id t0)"
        using t0 only by metis
      then show "(\<exists>x\<in>set (media_item_tags db). \<exists>t\<in>set (rows (tags db)).
               MediaItemTags.media_id x = MediaItems.media_id m \<and>
               MediaItemTags.tag_id x = Tags.tag_id t \<and> coll (Tags.tag_name t) ''Nature'')
            = (MediaItems.media_id m \<in> set (map MediaItemTags.media_id
               (filter (\<lambda>x. Some (MediaItemTags.tag_id x) = Some (Tags.tag_id t0))
                  (media_item_tags db))))"
        by (auto simp: image_iff)
    qed
    with F show ?thesis by (simp add: nature_query_def)
  qed
qed

lemma nature_tagged_after_insert:
  assumes "t \<in> set (rows (tags db))" and "coll (Tags.tag_name t) ''Nature''"
    and "m \<in> set (rows (media_items db))"
    and "insert_MediaItemTags db (Some (MediaItems.media_id m)) (Some (Tags.tag_id t)) = Inr db'"
  shows "m \<in> set (nature_tagged coll db') \<and> tags db' = tags db"
proof -
  from assms(4) have db': "db' = db\<lparr>media_item_tags := media_item_tags db @
      [\<lparr>MediaItemTags.media_id = MediaItems.media_id m, tag_id = Tags.tag_id t\<rparr>]\<rparr>"
    by (auto simp: insert_MediaItemTags_def split: if_splits)
  show ?thesis unfolding db' nature_tagged_def using assms(1-3) by auto
qed

text \<open>
  Claim C4 (the Nature query), as amended. In every database in which at most one \<^verbatim>\<open>Tags\<close>
  row is named Nature, the nested query returns the title, description and filename of
  exactly the media rows linked to that tag through \<^verbatim>\<open>MediaItemTags\<close>, in table order. If
  in such a database a new \<^verbatim>\<open>MediaItemTags\<close> row linking an existing media item to the
  Nature tag is inserted, the same query on the new database returns that item.
\<close>

theorem nature_query_single_tag:
  assumes "length (filter (\<lambda>t. coll (Tags.tag_name t) ''Nature'') (rows (tags db))) \<le> 1"
  shows "nature_query coll db = Inr (map projection (nature_tagged coll db)) \<and>
         (t \<in> set (rows (tags db)) \<and> coll (Tags.tag_name t) ''Nature'' \<and>
          m \<in> set (rows (media_items db)) \<and>
          insert_MediaItemTags db (Some (MediaItems.media_id m)) (Some (Tags.tag_id t)) = Inr db'
          \<longrightarrow> (\<exists>rs. nature_query coll db' = Inr rs \<and> projection m \<in> set rs))"
proof (intro conjI impI)
  show "nature_query coll db = Inr (map projection (nature_tagged coll db))"
    using assms by (rule nature_query_at_most_one)
next
  assume a: "t \<in> set (rows (tags db)) \<and> coll (Tags.tag_name t) ''Nature'' \<and>
          m \<in> set (rows (media_items db)) \<and>
          insert_MediaItemTags db (Some (MediaItems.media_id m)) (Some (Tags.tag_id t)) = Inr db'"
  then have i: "m \<in> set (nature_tagged coll db')" and tg: "tags db' = tags db"
    using nature_tagged_after_insert [of t db coll m db'] by simp_all
  from assms tg have "nature_query coll db' = Inr (map projection (nature_tagged coll db'))"
    by (simp add: nature_query_at_most_one)
  with i show "\<exists>rs. nature_query coll db' = Inr rs \<and> projection m \<in> set rs" by auto
qed

theorem nature_query_single_tag_witness:
  "nature_query (=) seed_db = Inr [(''Sunset'', Some ''A beautiful sunset'', ''sunset.jpg''),
                                   (''Favorite food'', None, ''ffd8.jpg'')] \<and>
   (\<exists>rs. nature_query (=) (apply_stmt (=) seed_db (InsertMediaItemTags (Some 4) (Some 1)))
            = Inr rs \<and> (''Aksux and Jane'', Some ''friends'', ''2f9b.jpg'') \<in> set rs)"
proof -
  let ?t = "\<lparr>Tags.tag_id = 1, tag_name = ''Nature''\<rparr>"
  let ?m = "\<lparr>MediaItems.media_id = 4, user_id = 1, filename = ''2f9b.jpg'', filesize = 1024,
          media_type = ''image/jpeg'', title = ''Aksux and Jane'',
          description = Some ''friends'', created_at = 0\<rparr>"
  let ?db' = "apply_stmt (=) seed_db (InsertMediaItemTags (Some 4) (Some 1))"
  have one: "length (filter (\<lambda>t. Tags.tag_name t = ''Nature'') (rows (tags seed_db))) \<le> 1"
    by (simp add: seed_db_def)
  have t: "?t \<in> set (rows (tags seed_db))" and m: "?m \<in> set (rows (media_items seed_db))"
    by (simp_all add: seed_db_def)
  have ins: "insert_MediaItemTags seed_db (Some (MediaItems.media_id ?m)) (Some (Tags.tag_id ?t))
               = Inr ?db'"
    by (simp add: apply_stmt_def insert_MediaItemTags_def seed_db_def key_defs)
  have tagged: "map projection (nature_tagged (=) seed_db) =
          [(''Sunset'', Some ''A beautiful sunset'', ''sunset.jpg''),
           (''Favorite food'', None, ''ffd8.jpg'')]"
    by (simp add: nature_tagged_def projection_def seed_db_def)
  show ?thesis
    using nature_query_single_tag [where coll = "(=)" and db = seed_db and t = ?t and m = ?m
        and db' = ?db', OF one] t m ins tagged
    by (simp add: projection_def)
qed

text \<open>
  As stated for every database, claim C4 fails: \<^verbatim>\<open>tag_name\<close> is not declared unique, and
  with two tags named Nature the scalar subquery has two rows, so the query is an error
  and returns no rows. The database is the sample data after
  \<^verbatim>\<open>INSERT INTO Tags (tag_name) VALUES ('Nature')\<close>.
\<close>

theorem nature_query_two_tags_counterexample:
  "nature_query (=) two_nature_db = Inl SubqueryCardinality"
  by (simp add: nature_query_def two_nature_db_def apply_stmt_def insert_Tags_def append_row_def
        seed_db_def)

subsection \<open>C5: unique usernames and emails\<close>

text \<open>
  Claim C5 (username and email are unique). Under a collation in which every string
  equals itself, an insert into \<^verbatim>\<open>Users\<close> whose username is the username of a row already
  present fails with \<open>ConstraintViolation\<close>, and so does one whose email is the email of
  a row already present; the database, and with it the \<^verbatim>\<open>Users\<close> table, is unchanged.
\<close>

theorem unique_username_email:
  assumes "\<And>s. coll s s" and "x \<in> set (rows (users db))"
  shows "insert_Users coll db now (Some (Users.username x)) pw mail lvl = Inl ConstraintViolation \<and>
         apply_stmt coll db (InsertUsers now (Some (Users.username x)) pw mail lvl) = db \<and>
         insert_Users coll db now uname pw (Some (Users.email x)) lvl = Inl ConstraintViolation \<and>
         apply_stmt coll db (InsertUsers now uname pw (Some (Users.email x)) lvl) = db"
proof -
  have u: "insert_Users coll db now (Some (Users.username x)) pw mail lvl
             = Inl ConstraintViolation"
    using assms by (auto simp: insert_Users_def split: option.splits)
  have e: "insert_Users coll db now uname pw (Some (Users.email x)) lvl = Inl ConstraintViolation"
    using assms by (auto simp: insert_Users_def split: option.splits)
  from u e show ?thesis by (simp add: apply_stmt_def)
qed

theorem unique_username_email_witness:
  "insert_Users (=) seed_db 0 (Some ''JohnDoe'') (Some ''pw'') (Some ''other@example.com'')
     (Some 2) = Inl ConstraintViolation \<and>
   apply_stmt (=) seed_db (InsertUsers 0 (Some ''JohnDoe'') (Some ''pw'')
     (Some ''other@example.com'') (Some 2)) = seed_db \<and>
   insert_Users (=) seed_db 0 (Some ''Other'') (Some ''pw'') (Some ''johndoe@example.com'')
     (Some 2) = Inl ConstraintViolation \<and>
   apply_stmt (=) seed_db (InsertUsers 0 (Some ''Other'') (Some ''pw'')
     (Some ''johndoe@example.com'') (Some 2)) = seed_db"
proof -
  let ?x = "\<lparr>Users.user_id = 1, username = ''JohnDoe'', password = ''to-be-hashed-pw1'',
          email = ''johndoe@example.com'', user_level_id = Some 2, created_at = 0\<rparr>"
  have r: "\<And>s::string. s = s" by simp
  have m: "?x \<in> set (rows (users seed_db))" by (simp add: seed_db_def)
  show ?thesis
    using unique_username_email [where coll = "(=)" and db = seed_db and x = ?x and now = 0
        and pw = "Some ''pw''" and mail = "Some ''other@example.com''" and lvl = "Some 2"
        and uname = "Some ''Other''", OF r m]
    by simp
qed

subsection \<open>C6: ambiguous projection\<close>

lemma list_all_grouped_or_aggregated:
  "list_all (grouped_or_aggregated g) sel \<longleftrightarrow> (\<forall>c. Col c \<in> set sel \<longrightarrow> c \<in> set g)"
proof (induction sel)
  case Nil
  then show ?case by simp
next
  case (Cons e sel)
  then show ?case by (cases e) auto
qed

lemma select_group_by_ambiguous:
  "select_group_by coll columns sel g rs = Inl AmbiguousProjection \<longleftrightarrow>
     list_all (\<lambda>c. c \<in> set columns) (map column_of sel @ g) \<and>
     (\<exists>c. Col c \<in> set sel \<and> c \<notin> set g)"
  by (auto simp: select_group_by_def check_projection_def list_all_grouped_or_aggregated)

text \<open>
  Claim C6 (ambiguous projection). A grouped query is rejected with \<open>AmbiguousProjection\<close>
  exactly when its columns exist and its select list names a column outside an aggregate
  that is not part of the \<^verbatim>\<open>GROUP BY\<close>. So on every database a query that groups
  \<^verbatim>\<open>MediaItems\<close> by \<^verbatim>\<open>media_type\<close> and selects, among existing columns, any column \<open>c\<close>
  other than \<^verbatim>\<open>media_type\<close> outside an aggregate is rejected and returns no result set;
  the query of the lecture, with \<^verbatim>\<open>filesize\<close> for \<open>c\<close>, is one of them.
\<close>

theorem ambiguous_projection_rejected:
  "(select_group_by coll columns q g rs = Inl AmbiguousProjection \<longleftrightarrow>
      list_all (\<lambda>c. c \<in> set columns) (map column_of q @ g) \<and>
      (\<exists>c. Col c \<in> set q \<and> c \<notin> set g)) \<and>
   (list_all (\<lambda>e. column_of e \<in> set MediaItems_columns) sel \<and> Col c \<in> set sel \<and>
    c \<noteq> ''media_type'' \<longrightarrow>
      media_by_type_query coll db sel = Inl AmbiguousProjection) \<and>
   ambiguous_query coll db = Inl AmbiguousProjection"
proof (intro conjI impI)
  show "select_group_by coll columns q g rs = Inl AmbiguousProjection \<longleftrightarrow>
      list_all (\<lambda>c. c \<in> set columns) (map column_of q @ g) \<and>
      (\<exists>c. Col c \<in> set q \<and> c \<notin> set g)"
    by (rule select_group_by_ambiguous)
next
  assume a: "list_all (\<lambda>e. column_of e \<in> set MediaItems_columns) sel \<and> Col c \<in> set sel \<and>
    c \<noteq> ''media_type''"
  then have "list_all (\<lambda>c. c \<in> set MediaItems_columns) (map column_of sel @ [''media_type''])"
    by (simp add: list_all_iff MediaItems_columns_def)
  moreover from a have "\<exists>c. Col c \<in> set sel \<and> c \<notin> set [''media_type'']"
    by auto
  ultimately show "media_by_type_query coll db sel = Inl AmbiguousProjection"
    unfolding media_by_type_query_def by (simp only: select_group_by_ambiguous)
next
  show "ambiguous_query coll db = Inl AmbiguousProjection"
    by (simp add: ambiguous_query_def select_group_by_def check_projection_def
          MediaItems_columns_def)
qed

theorem ambiguous_projection_rejected_witness:
  "media_by_type_query (=) seed_db [Col ''media_type'', Col ''title''] = Inl AmbiguousProjection \<and>
   media_by_type_query (=) seed_db [Col ''filesize'', Count ''media_id'']
     = Inl AmbiguousProjection \<and>
   ambiguous_query (=) seed_db = Inl AmbiguousProjection"
proof -
  have h1: "list_all (\<lambda>e. column_of e \<in> set MediaItems_columns)
              [Col ''media_type'', Col ''title''] \<and>
            Col ''title'' \<in> set [Col ''media_type'', Col ''title''] \<and>
            ''title'' \<noteq> ''media_type''"
    by (simp add: MediaItems_columns_def)
  have h2: "list_all (\<lambda>e. column_of e \<in> set MediaItems_columns)
              [Col ''filesize'', Count ''media_id''] \<and>
            Col ''filesize'' \<in> set [Col ''filesize'', Count ''media_id''] \<and>
            ''filesize'' \<noteq> ''media_type''"
    by (simp add: MediaItems_columns_def)
  show ?thesis
    using h1 h2
      ambiguous_projection_rejected [where coll = "(=)" and db = seed_db
        and sel = "[Col ''media_type'', Col ''title'']" and c = "''title''"]
      ambiguous_projection_rejected [where coll = "(=)" and db = seed_db
        and sel = "[Col ''filesize'', Count ''media_id'']" and c = "''filesize''"]
    by simp
qed

text \<open>The two grouped queries that the lecture gives before it are accepted, and so is
  a select list of a grouped column and an aggregate.\<close>

lemma grouped_projections_accepted:
  "media_types_query (=) seed_db = Inr [[VStr ''image/jpeg''], [VStr ''video/mp4'']]"
  "media_types_sizes_query (=) seed_db =
     Inr [[VStr ''image/jpeg'', VInt 1024], [VStr ''video/mp4'', VInt 20480],
          [VStr ''image/jpeg'', VInt 2048]]"
  "media_by_type_query (=) seed_db [Col ''media_type'', Count ''filesize''] =
     Inr [[VStr ''image/jpeg'', VInt 3], [VStr ''video/mp4'', VInt 1]]"
  by (simp_all add: media_types_query_def media_types_sizes_query_def media_by_type_query_def
        select_group_by_def check_projection_def seed_db_def MediaItems_columns_def
        MediaItems_row_def same_group_def cell_def)

subsection \<open>C7: file size\<close>




subsection \<open>C8: the level of a user\<close>

text \<open>
  Claim C8 (every user has a level). \<^verbatim>\<open>Users.user_level_id\<close> is the only foreign key column
  of the script that is not declared \<^verbatim>\<open>NOT NULL\<close>, although the lecture says that each user
  belongs to one user level. The sample database therefore accepts
  \<^verbatim>\<open>INSERT INTO Users (username, password, email, user_level_id)
    VALUES ('NoLevel', 'to-be-hashed-pw5', 'nolevel@example.com', NULL)\<close>
  and stores a user whose level reference resolves to no \<^verbatim>\<open>UserLevels\<close> row.
\<close>

theorem user_without_level_accepted:
  "insert_Users (=) seed_db 0 (Some ''NoLevel'') (Some ''to-be-hashed-pw5'')
     (Some ''nolevel@example.com'') None =
   Inr (5, seed_db\<lparr>users := append_row
             \<lparr>Users.user_id = 5, username = ''NoLevel'', password = ''to-be-hashed-pw5'',
              email = ''nolevel@example.com'', user_level_id = None, created_at = 0\<rparr>
             (users seed_db)\<rparr>)"
  by (simp add: insert_Users_def seed_db_def Let_def)

text \<open>What the declared foreign key does give: a level reference that is not \<^verbatim>\<open>NULL\<close> is
  the key of a \<^verbatim>\<open>UserLevels\<close> row.\<close>

lemma user_level_null_or_resolved:
  "fk_ok (non_null (map Users.user_level_id (rows (users (run coll empty_db ss)))))
     (level_ids (run coll empty_db ss))"
  using run_empty_db_ri [of coll ss] by (simp add: referential_integrity_def)

subsection \<open>C9: deletes and dependent rows\<close>

text \<open>
  Claim C9 (deletes cannot orphan children). No foreign key declares an \<^verbatim>\<open>ON DELETE\<close>
  action. A \<^verbatim>\<open>DELETE\<close> on \<^verbatim>\<open>Users\<close> that would remove a row whose key is referred to by a
  \<^verbatim>\<open>MediaItems\<close>, \<^verbatim>\<open>Comments\<close>, \<^verbatim>\<open>Likes\<close> or \<^verbatim>\<open>Ratings\<close> row fails with
  \<open>ConstraintViolation\<close> and changes nothing, and so does a \<^verbatim>\<open>DELETE\<close> on \<^verbatim>\<open>MediaItems\<close>
  that would remove a row referred to by a \<^verbatim>\<open>Comments\<close>, \<^verbatim>\<open>Likes\<close>, \<^verbatim>\<open>Ratings\<close> or
  \<^verbatim>\<open>MediaItemTags\<close> row. Hence in every database reached from the empty one by any
  sequence of inserts, deletes and updates, every foreign key reference that is not
  \<^verbatim>\<open>NULL\<close> is the key of a row of the referenced table.
\<close>

theorem deletes_cannot_orphan:
  "referential_integrity (run coll empty_db ss) \<and>
   (x \<in> set (rows (users db)) \<and> w x \<and>
    Users.user_id x \<in> set (map MediaItems.user_id (rows (media_items db)) @
                            map Comments.user_id (rows (comments db)) @
                            map Likes.user_id (rows (likes db)) @
                            map Ratings.user_id (rows (ratings db))) \<longrightarrow>
      delete_Users db w = Inl ConstraintViolation \<and> apply_stmt coll db (DeleteUsers w) = db) \<and>
   (y \<in> set (rows (media_items db)) \<and> w' y \<and>
    MediaItems.media_id y \<in> set (map Comments.media_id (rows (comments db)) @
                                 map Likes.media_id (rows (likes db)) @
                                 map Ratings.media_id (rows (ratings db)) @
                                 map MediaItemTags.media_id (media_item_tags db)) \<longrightarrow>
      delete_MediaItems db w' = Inl ConstraintViolation \<and>
      apply_stmt coll db (DeleteMediaItems w') = db)"
proof (intro conjI impI)
  show "referential_integrity (run coll empty_db ss)" by (rule run_empty_db_ri)
next
  assume a: "x \<in> set (rows (users db)) \<and> w x \<and>
    Users.user_id x \<in> set (map MediaItems.user_id (rows (media_items db)) @
                            map Comments.user_id (rows (comments db)) @
                            map Likes.user_id (rows (likes db)) @
                            map Ratings.user_id (rows (ratings db)))"
  then have k: "Users.user_id x \<in> set (map Users.user_id (filter w (rows (users db))))"
    by auto
  from a have "referenced (map Users.user_id (filter w (rows (users db))))
                   (map MediaItems.user_id (rows (media_items db)))
      \<or> referenced (map Users.user_id (filter w (rows (users db))))
                   (map Comments.user_id (rows (comments db)))
      \<or> referenced (map Users.user_id (filter w (rows (users db))))
                   (map Likes.user_id (rows (likes db)))
      \<or> referenced (map Users.user_id (filter w (rows (users db))))
                   (map Ratings.user_id (rows (ratings db)))"
    unfolding referenced_def set_append Un_iff using k by blast
  then show r: "delete_Users db w = Inl ConstraintViolation"
    by (simp add: delete_Users_def Let_def)
  then show "apply_stmt coll db (DeleteUsers w) = db" by (simp add: apply_stmt_def)
next
  assume a: "y \<in> set (rows (media_items db)) \<and> w' y \<and>
    MediaItems.media_id y \<in> set (map Comments.media_id (rows (comments db)) @
                                 map Likes.media_id (rows (likes db)) @
                                 map Ratings.media_id (rows (ratings db)) @
                                 map MediaItemTags.media_id (media_item_tags db))"
  then have k: "MediaItems.media_id y
                  \<in> set (map MediaItems.media_id (filter w' (rows (media_items db))))"
    by auto
  from a have "referenced (map MediaItems.media_id (filter w' (rows (media_items db))))
                   (map Comments.media_id (rows (comments db)))
      \<or> referenced (map MediaItems.media_id (filter w' (rows (media_items db))))
                   (map Likes.media_id (rows (likes db)))
      \<or> referenced (map MediaItems.media_id (filter w' (rows (media_items db))))
                   (map Ratings.media_id (rows (ratings db)))
      \<or> referenced (map MediaItems.media_id (filter w' (rows (media_items db))))
                   (map MediaItemTags.media_id (media_item_tags db))"
    unfolding referenced_def set_append Un_iff using k by blast
  then show r: "delete_MediaItems db w' = Inl ConstraintViolation"
    by (simp add: delete_MediaItems_def Let_def)
  then show "apply_stmt coll db (DeleteMediaItems w') = db" by (simp add: apply_stmt_def)
qed

theorem deletes_cannot_orphan_witness:
  "referential_integrity seed_db \<and>
   delete_Users seed_db (\<lambda>u. Users.user_id u = 1) = Inl ConstraintViolation \<and>
   apply_stmt (=) seed_db (DeleteUsers (\<lambda>u. Users.user_id u = 1)) = seed_db \<and>
   delete_MediaItems seed_db (\<lambda>m. MediaItems.media_id m = 2) = Inl ConstraintViolation \<and>
   apply_stmt (=) seed_db (DeleteMediaItems (\<lambda>m. MediaItems.media_id m = 2)) = seed_db"
proof -
  let ?x = "\<lparr>Users.user_id = 1, username = ''JohnDoe'', password = ''to-be-hashed-pw1'',
          email = ''johndoe@example.com'', user_level_id = Some 2, created_at = 0\<rparr>"
  let ?y = "\<lparr>MediaItems.media_id = 2, user_id = 2, filename = ''sample.mp4'', filesize = 20480,
          media_type = ''video/mp4'', title = ''Sample Video'',
          description = Some ''A sample video file'', created_at = 0\<rparr>"
  have x: "?x \<in> set (rows (users seed_db))" and y: "?y \<in> set (rows (media_items seed_db))"
    by (simp_all add: seed_db_def)
  have cx: "Users.user_id ?x \<in> set (map MediaItems.user_id (rows (media_items seed_db)) @
                            map Comments.user_id (rows (comments seed_db)) @
                            map Likes.user_id (rows (likes seed_db)) @
                            map Ratings.user_id (rows (ratings seed_db)))"
    by (simp add: seed_db_def)
  have cy: "MediaItems.media_id ?y \<in> set (map Comments.media_id (rows (comments seed_db)) @
                                 map Likes.media_id (rows (likes seed_db)) @
                                 map Ratings.media_id (rows (ratings seed_db)) @
                                 map MediaItemTags.media_id (media_item_tags seed_db))"
    by (simp add: seed_db_def)
  show ?thesis
    using x y cx cy
      deletes_cannot_orphan [where coll = "(=)" and ss = seed_script and db = seed_db
        and x = ?x and w = "\<lambda>u. Users.user_id u = 1" and y = ?y
        and w' = "\<lambda>m. MediaItems.media_id m = 2"]
    by (simp add: seed_db_run)
qed

subsection \<open>C10: addUser\<close>



end
